theory Spec2Isabelle
  imports
    Complex_Main
    "HOL-Library.Char_ord"
    "HOL-Library.List_Lexorder"
    "HOL-Library.Sublist"
    "HOL-Library.Multiset"
    "HOL-Library.Word"
begin

unbundle bit_operations_syntax

chapter \<open>The search pipeline of the MCP server: model\<close>

text \<open>
  A shallow embedding of \<^verbatim>\<open>app/mcp/processing/processor.py\<close>,
  \<^verbatim>\<open>app/mcp/search/cache.py\<close> and \<^verbatim>\<open>app/mcp/search/google_client.py\<close>.
  Python dictionaries with a fixed set of keys are records whose fields are options
  (a missing key is \<open>None\<close>), exceptions are \<open>Inl\<close> values of a sum type, mutable
  objects are explicit states that each operation returns updated.
\<close>

section \<open>Python floats\<close>

text \<open>
  A Python \<^verbatim>\<open>float\<close> is an IEEE 754 binary64 number. A finite one is a rational, so
  the model keeps the exact value (a \<open>real\<close>) and rounds after every addition: to the
  nearest number with a 53 bit significand, ties to the even significand. The exponent is
  not bounded: the scores below stay between \<open>0.05\<close> and \<open>2 ^ 53\<close>, far from overflow and
  from the subnormal range.
\<close>

type_synonym pyfloat = real

fun bitlen :: "nat \<Rightarrow> nat" where
  "bitlen n = (if n = 0 then 0 else Suc (bitlen (n div 2)))"

definition round_half_even :: "real \<Rightarrow> int" where
  "round_half_even x =
     (let f = \<lfloor>x\<rfloor>; r = x - of_int f
      in if r < 1 / 2 then f else if 1 / 2 < r then f + 1 else if even f then f else f + 1)"

definition ilog2 :: "real \<Rightarrow> int" where
  \<comment> \<open>\<open>\<lfloor>log\<^sub>2 x\<rfloor>\<close> for \<open>0 < x\<close>\<close>
  "ilog2 x = (if 1 \<le> x then int (bitlen (nat \<lfloor>x\<rfloor>)) - 1
              else - int (bitlen (nat (\<lceil>1 / x\<rceil> - 1))))"

definition scale2 :: "real \<Rightarrow> int \<Rightarrow> real" where
  \<comment> \<open>\<open>x * 2 ^ e\<close> for an integer \<open>e\<close>\<close>
  "scale2 x e = (if 0 \<le> e then x * 2 ^ nat e else x / 2 ^ nat (- e))"

definition round_pos :: "real \<Rightarrow> real" where
  "round_pos x =
     (let e = ilog2 x - 52 in scale2 (of_int (round_half_even (scale2 x (- e)))) e)"

definition round_double :: "real \<Rightarrow> pyfloat" where
  "round_double x = (if x = 0 then 0 else if x < 0 then - round_pos (- x) else round_pos x)"

definition fadd :: "pyfloat \<Rightarrow> pyfloat \<Rightarrow> pyfloat" where
  \<comment> \<open>Python's \<^verbatim>\<open>x + y\<close> on floats\<close>
  "fadd x y = round_double (x + y)"

definition py_min :: "pyfloat \<Rightarrow> pyfloat \<Rightarrow> pyfloat" where
  \<comment> \<open>Python's \<^verbatim>\<open>min(a, b)\<close>: the first argument unless the second is smaller\<close>
  "py_min a b = (if b < a then b else a)"

text \<open>The float literals of the scorer: each is the double nearest to the decimal.\<close>

definition lit_0_05 :: pyfloat where "lit_0_05 = round_double (5 / 100)"
definition lit_0_1 :: pyfloat where "lit_0_1 = round_double (1 / 10)"
definition lit_0_2 :: pyfloat where "lit_0_2 = round_double (2 / 10)"
definition lit_0_3 :: pyfloat where "lit_0_3 = round_double (3 / 10)"
definition lit_0_5 :: pyfloat where "lit_0_5 = round_double (5 / 10)"
definition lit_1_0 :: pyfloat where "lit_1_0 = round_double 1"

section \<open>Python strings\<close>

text \<open>
  Strings are lists of characters; the model covers ASCII text. \<^verbatim>\<open>str.lower\<close> maps
  \<^verbatim>\<open>A-Z\<close> to \<^verbatim>\<open>a-z\<close> and leaves every other character, the pattern \<^verbatim>\<open>\w\<close>
  matches letters, digits and the underscore, and \<^verbatim>\<open>t in s\<close> is the substring test.
\<close>

definition ascii_uppercase :: string where
  "ascii_uppercase = ''ABCDEFGHIJKLMNOPQRSTUVWXYZ''"

definition ascii_lowercase :: string where
  "ascii_lowercase = ''abcdefghijklmnopqrstuvwxyz''"

definition ascii_digits :: string where
  "ascii_digits = ''0123456789''"

fun translate :: "'a list \<Rightarrow> 'b list \<Rightarrow> 'b \<Rightarrow> 'a \<Rightarrow> 'b" where
  \<comment> \<open>the value a table gives for \<open>c\<close>, and \<open>d\<close> where it has none\<close>
  "translate (x # xs) (y # ys) d c = (if c = x then y else translate xs ys d c)"
| "translate xs ys d c = d"

definition lower_char :: "char \<Rightarrow> char" where
  "lower_char c = translate ascii_uppercase ascii_lowercase c c"

definition lower :: "string \<Rightarrow> string" where
  "lower s = map lower_char s"

definition is_word_char :: "char \<Rightarrow> bool" where
  "is_word_char c \<longleftrightarrow> c \<in> set (ascii_lowercase @ ascii_uppercase @ ascii_digits @ ''_'')"

fun findall_word_from :: "string \<Rightarrow> string \<Rightarrow> string list" where
  "findall_word_from cur [] = (if cur = [] then [] else [cur])"
| "findall_word_from cur (c # cs) =
     (if is_word_char c then findall_word_from (cur @ [c]) cs
      else if cur = [] then findall_word_from [] cs
      else cur # findall_word_from [] cs)"

definition findall_word :: "string \<Rightarrow> string list" where
  \<comment> \<open>\<^verbatim>\<open>re.findall(r'\w+', s)\<close>: the maximal runs of word characters, left to right\<close>
  "findall_word s = findall_word_from [] s"

fun py_in :: "string \<Rightarrow> string \<Rightarrow> bool" where
  "py_in t [] = (t = [])"
| "py_in t (c # cs) = (prefix t (c # cs) \<or> py_in t cs)"

definition get_str :: "string option \<Rightarrow> string" where
  \<comment> \<open>\<^verbatim>\<open>d.get(key, "")\<close> for a key whose value is a string\<close>
  "get_str v = (case v of None \<Rightarrow> [] | Some s \<Rightarrow> s)"

section \<open>Raw upstream payload\<close>

text \<open>
  The payload of the Custom Search API as the processor reads it. \<open>other_keys\<close> lists
  the top-level keys the processor never looks at (\<^verbatim>\<open>kind\<close>, \<^verbatim>\<open>queries\<close>, ...):
  they only matter for the truth value of the dictionary.
\<close>

record cse_image =
  src :: "string option"

record metatags =
  og_description :: "string option"
  description :: "string option"

record pagemap =
  cse_image :: "cse_image list option"
  metatags :: "metatags list option"

record raw_item =
  title :: "string option"
  link :: "string option"
  displayLink :: "string option"
  snippet :: "string option"
  htmlSnippet :: "string option"
  pagemap :: "pagemap option"

record search_information =
  totalResults :: "string option"
  searchTime :: "pyfloat option"
  formattedSearchTime :: "string option"

record raw_results =
  searchInformation :: "search_information option"
  raw_items :: "raw_item list option"
  other_keys :: "string list"

section \<open>Relevance score\<close>

text \<open>\<^verbatim>\<open>SearchResultProcessor._calculate_relevance_score\<close>, one loop per function.\<close>

fun title_score :: "string \<Rightarrow> string list \<Rightarrow> pyfloat \<Rightarrow> pyfloat" where
  "title_score t [] acc = acc"
| "title_score t (term # terms) acc =
     (if py_in term t
      then title_score t terms
             (if term = t then fadd (fadd acc lit_0_2) lit_0_3 else fadd acc lit_0_2)
      else title_score t terms acc)"

fun snippet_score :: "string \<Rightarrow> string list \<Rightarrow> pyfloat \<Rightarrow> pyfloat" where
  "snippet_score s [] acc = acc"
| "snippet_score s (term # terms) acc =
     snippet_score s terms (if py_in term s then fadd acc lit_0_1 else acc)"

fun domain_score :: "string \<Rightarrow> string \<Rightarrow> string list \<Rightarrow> pyfloat \<Rightarrow> pyfloat" where
  "domain_score dl l [] acc = acc"
| "domain_score dl l (term # terms) acc =
     (let acc1 = (if py_in term dl then fadd acc lit_0_1 else acc);
          acc2 = (if py_in term l then fadd acc1 lit_0_05 else acc1)
      in domain_score dl l terms acc2)"

definition query_terms :: "string \<Rightarrow> string list" where
  "query_terms query = findall_word (lower query)"

definition title_part :: "raw_item \<Rightarrow> string \<Rightarrow> pyfloat" where
  "title_part item query =
     py_min lit_0_5 (title_score (lower (get_str (title item))) (query_terms query) 0)"

definition snippet_part :: "raw_item \<Rightarrow> string \<Rightarrow> pyfloat" where
  "snippet_part item query =
     py_min lit_0_3 (snippet_score (lower (get_str (snippet item))) (query_terms query) 0)"

definition domain_part :: "raw_item \<Rightarrow> string \<Rightarrow> pyfloat" where
  "domain_part item query =
     py_min lit_0_2
       (domain_score (lower (get_str (displayLink item))) (lower (get_str (link item)))
          (query_terms query) 0)"

definition calculate_relevance_score :: "raw_item \<Rightarrow> string \<Rightarrow> pyfloat" where
  "calculate_relevance_score item query =
     (let score = 0;
          score = fadd score (title_part item query);
          score = fadd score (snippet_part item query);
          score = fadd score (domain_part item query)
      in py_min lit_1_0 score)"

text \<open>The example item of the specification.\<close>

definition oil_spill_item :: raw_item where
  "oil_spill_item =
     \<lparr> title = Some ''Major Oil Spill Reported'',
       link = Some ''https://news.example.com/oil-spill'',
       displayLink = Some ''news.example.com'',
       snippet = Some ''An oil spill occurred near the coast'',
       htmlSnippet = None,
       pagemap = None \<rparr>"

section \<open>Exceptions\<close>

text \<open>
  The exceptions the modelled code can raise. \<open>HttpError status json\<close> is the client
  library's error for an HTTP status; \<open>json\<close> says whether its body parses as JSON.
\<close>

datatype py_error =
    IndexError
  | KeyError
  | ValueError
  | TypeError
  | JSONDecodeError
  | HttpError nat bool
  | TimeoutError
  | ConnectError

section \<open>Processing of the raw results\<close>

record search_result =
  res_title :: string
  res_link :: string
  res_displayLink :: string
  res_snippet :: string
  res_htmlSnippet :: string
  relevanceScore :: pyfloat
  res_domain :: string
  res_image :: "string option"
  metaDescription :: "string option"

record search_response =
  resp_query :: string
  resp_totalResults :: int
  resp_searchTime :: pyfloat
  resp_formattedSearchTime :: string
  items :: "search_result list"

text \<open>
  \<^verbatim>\<open>int(s)\<close> for a string: surrounding whitespace is dropped, a sign may come first,
  and the digits may be grouped by single underscores.
\<close>

definition is_space :: "char \<Rightarrow> bool" where
  "is_space c \<longleftrightarrow>
     c \<in> set [CHR '' '', CHR 0x09, CHR 0x0A, CHR 0x0B, CHR 0x0C, CHR 0x0D]"

definition is_digit :: "char \<Rightarrow> bool" where
  "is_digit c \<longleftrightarrow> c \<in> set ascii_digits"

definition digit_value :: "char \<Rightarrow> nat" where
  "digit_value c = translate ascii_digits [0 ..< 10] 0 c"

definition strip :: "string \<Rightarrow> string" where
  "strip s = rev (dropWhile is_space (rev (dropWhile is_space s)))"

fun digits_value :: "string \<Rightarrow> bool \<Rightarrow> nat \<Rightarrow> nat option" where
  \<comment> \<open>the flag says that the previous character was a digit\<close>
  "digits_value [] after_digit acc = (if after_digit then Some acc else None)"
| "digits_value (c # cs) after_digit acc =
     (if is_digit c then digits_value cs True (10 * acc + digit_value c)
      else if c = CHR ''_'' \<and> after_digit then digits_value cs False acc
      else None)"

definition py_int :: "string \<Rightarrow> py_error + int" where
  "py_int s =
     (let body = strip s;
          negative = (body \<noteq> [] \<and> hd body = CHR ''-'');
          signed = (body \<noteq> [] \<and> (hd body = CHR ''-'' \<or> hd body = CHR ''+''));
          ds = (if signed then tl body else body)
      in case digits_value ds False 0 of
           None \<Rightarrow> Inl ValueError
         | Some n \<Rightarrow> Inr (if negative then - int n else int n))"

text \<open>\<^verbatim>\<open>SearchResultProcessor._process_item\<close>.\<close>

definition split_domain :: "string \<Rightarrow> string" where
  \<comment> \<open>\<^verbatim>\<open>d.split(".", 1)[0] if "." in d else d\<close>\<close>
  "split_domain d = (if CHR ''.'' \<in> set d then takeWhile (\<lambda>c. c \<noteq> CHR ''.'') d else d)"

definition first_of :: "'a list \<Rightarrow> py_error + 'a" where
  \<comment> \<open>\<^verbatim>\<open>xs[0]\<close>\<close>
  "first_of xs = (case xs of [] \<Rightarrow> Inl IndexError | x # _ \<Rightarrow> Inr x)"

definition item_image :: "raw_item \<Rightarrow> py_error + string option" where
  "item_image item =
     (case pagemap item of
        None \<Rightarrow> Inr None
      | Some pm \<Rightarrow>
          (case cse_image pm of
             None \<Rightarrow> Inr None
           | Some imgs \<Rightarrow>
               (case first_of imgs of
                  Inl e \<Rightarrow> Inl e
                | Inr img \<Rightarrow> Inr (Some (get_str (src img))))))"

definition item_meta_description :: "raw_item \<Rightarrow> py_error + string option" where
  "item_meta_description item =
     (case pagemap item of
        None \<Rightarrow> Inr None
      | Some pm \<Rightarrow>
          (case metatags pm of
             None \<Rightarrow> Inr None
           | Some tags \<Rightarrow>
               (case first_of tags of
                  Inl e \<Rightarrow> Inl e
                | Inr meta_tags \<Rightarrow>
                    Inr (Some (case og_description meta_tags of
                                 Some d \<Rightarrow> d
                               | None \<Rightarrow> get_str (description meta_tags))))))"

definition process_item :: "raw_item \<Rightarrow> pyfloat \<Rightarrow> py_error + search_result" where
  "process_item item relevance_score =
     (case item_image item of
        Inl e \<Rightarrow> Inl e
      | Inr img \<Rightarrow>
          (case item_meta_description item of
             Inl e \<Rightarrow> Inl e
           | Inr meta \<Rightarrow>
               Inr \<lparr> res_title = get_str (title item),
                     res_link = get_str (link item),
                     res_displayLink = get_str (displayLink item),
                     res_snippet = get_str (snippet item),
                     res_htmlSnippet = get_str (htmlSnippet item),
                     relevanceScore = relevance_score,
                     res_domain = split_domain (get_str (displayLink item)),
                     res_image = img,
                     metaDescription = meta \<rparr>))"

text \<open>
  \<^verbatim>\<open>SearchResultProcessor._process_raw_results\<close>. The two domain lists are optional
  (\<^verbatim>\<open>None\<close> by default); \<^verbatim>\<open>if filter_domains:\<close> is false for \<^verbatim>\<open>None\<close> and for the
  empty list. \<open>process_items\<close> is the loop over the raw items, \<open>acc\<close> the list of
  processed items built so far.
\<close>

definition truthy_list :: "'a list option \<Rightarrow> bool" where
  "truthy_list xs = (case xs of None \<Rightarrow> False | Some ys \<Rightarrow> ys \<noteq> [])"

definition any_domain_in :: "string list option \<Rightarrow> string \<Rightarrow> bool" where
  \<comment> \<open>\<^verbatim>\<open>any(domain in display_link for domain in domains)\<close>\<close>
  "any_domain_in domains display_link =
     (case domains of None \<Rightarrow> False | Some ds \<Rightarrow> list_ex (\<lambda>d. py_in d display_link) ds)"

fun process_items ::
  "raw_item list \<Rightarrow> string \<Rightarrow> string list option \<Rightarrow> string list option \<Rightarrow> pyfloat
     \<Rightarrow> search_result list \<Rightarrow> py_error + search_result list" where
  "process_items [] query filter_domains exclude_domains min_relevance_score acc = Inr acc"
| "process_items (item # rest) query filter_domains exclude_domains min_relevance_score acc =
     (let relevance_score = calculate_relevance_score item query
      in if relevance_score < min_relevance_score
         then process_items rest query filter_domains exclude_domains min_relevance_score acc
         else if truthy_list filter_domains
                 \<and> \<not> any_domain_in filter_domains (get_str (displayLink item))
         then process_items rest query filter_domains exclude_domains min_relevance_score acc
         else if truthy_list exclude_domains
                 \<and> any_domain_in exclude_domains (get_str (displayLink item))
         then process_items rest query filter_domains exclude_domains min_relevance_score acc
         else (case process_item item relevance_score of
                 Inl e \<Rightarrow> Inl e
               | Inr processed_item \<Rightarrow>
                   process_items rest query filter_domains exclude_domains
                     min_relevance_score (acc @ [processed_item])))"

definition sort_by_score_reverse :: "search_result list \<Rightarrow> search_result list" where
  \<comment> \<open>\<^verbatim>\<open>list.sort(key=lambda x: x["relevanceScore"], reverse=True)\<close>: Python's sort is
      stable, also when reversed, so it is the stable sort by the negated key\<close>
  "sort_by_score_reverse xs = sort_key (\<lambda>x. - relevanceScore x) xs"

definition process_raw_results ::
  "raw_results \<Rightarrow> string \<Rightarrow> string list option \<Rightarrow> string list option \<Rightarrow> pyfloat
     \<Rightarrow> py_error + search_response" where
  "process_raw_results raw query filter_domains exclude_domains min_relevance_score =
     (let info = searchInformation raw;
          total = (case info of None \<Rightarrow> ''0''
                   | Some i \<Rightarrow> (case totalResults i of None \<Rightarrow> ''0'' | Some t \<Rightarrow> t));
          time = (case info of None \<Rightarrow> 0
                  | Some i \<Rightarrow> (case searchTime i of None \<Rightarrow> 0 | Some t \<Rightarrow> t));
          formatted = (case info of None \<Rightarrow> [] | Some i \<Rightarrow> get_str (formattedSearchTime i))
      in case py_int total of
           Inl e \<Rightarrow> Inl e
         | Inr n \<Rightarrow>
             (let processed_data =
                    \<lparr> resp_query = query, resp_totalResults = n, resp_searchTime = time,
                      resp_formattedSearchTime = formatted, items = [] \<rparr>
              in case raw_items raw of
                   None \<Rightarrow> Inr processed_data
                 | Some its \<Rightarrow>
                     (case process_items its query filter_domains exclude_domains
                             min_relevance_score [] of
                        Inl e \<Rightarrow> Inl e
                      | Inr ps \<Rightarrow> Inr (processed_data\<lparr>items := sort_by_score_reverse ps\<rparr>))))"

text \<open>
  Three raw items that the scorer gives \<open>0.9\<close>, \<open>0.4\<close> and \<open>0.7\<close> for the query
  \<open>oil spill coast\<close>, in this upstream order.
\<close>

definition item_09 :: raw_item where
  "item_09 =
     \<lparr> title = Some ''Oil spill on the coast'',
       link = Some ''https://news.example.com/oil-spill'',
       displayLink = Some ''news.example.com'',
       snippet = Some ''The oil spill reached the coast'',
       htmlSnippet = None,
       pagemap = None \<rparr>"

definition item_04 :: raw_item where
  "item_04 =
     \<lparr> title = Some ''Oil spill'',
       link = Some ''https://blog.example.org/p/1'',
       displayLink = Some ''blog.example.org'',
       snippet = Some ''A report'',
       htmlSnippet = None,
       pagemap = None \<rparr>"

definition item_07 :: raw_item where
  "item_07 =
     \<lparr> title = Some ''Coast oil spill'',
       link = Some ''https://wire.example.net/p/2'',
       displayLink = Some ''wire.example.net'',
       snippet = Some ''Spill near the coast'',
       htmlSnippet = None,
       pagemap = Some \<lparr> cse_image = Some [\<lparr> src = Some ''https://wire.example.net/i.png'' \<rparr>],
                        metatags = None \<rparr> \<rparr>"

definition three_results :: raw_results where
  "three_results =
     \<lparr> searchInformation =
         Some \<lparr> totalResults = Some ''3'', searchTime = Some (1 / 4),
                formattedSearchTime = Some ''0.25'' \<rparr>,
       raw_items = Some [item_09, item_04, item_07],
       other_keys = [''kind''] \<rparr>"

definition three_response :: search_response where
  "three_response =
     \<lparr> resp_query = ''oil spill coast'', resp_totalResults = 3,
       resp_searchTime = 1 / 4, resp_formattedSearchTime = ''0.25'',
       items =
         [\<lparr> res_title = ''Oil spill on the coast'',
             res_link = ''https://news.example.com/oil-spill'',
             res_displayLink = ''news.example.com'',
             res_snippet = ''The oil spill reached the coast'',
             res_htmlSnippet = [],
             relevanceScore = 8106479329266893 / 9007199254740992,
             res_domain = ''news'', res_image = None, metaDescription = None \<rparr>,
          \<lparr> res_title = ''Coast oil spill'',
             res_link = ''https://wire.example.net/p/2'',
             res_displayLink = ''wire.example.net'',
             res_snippet = ''Spill near the coast'',
             res_htmlSnippet = [],
             relevanceScore = 3152519739159347 / 4503599627370496,
             res_domain = ''wire'', res_image = Some ''https://wire.example.net/i.png'',
             metaDescription = None \<rparr>] \<rparr>"

text \<open>
  What the filtering policy keeps, in the words of the specification: the score reaches
  the minimum, some domain of a non-empty allow-list occurs in the display domain, and no
  domain of the deny-list does.
\<close>

definition kept ::
  "string \<Rightarrow> string list option \<Rightarrow> string list option \<Rightarrow> pyfloat \<Rightarrow> raw_item \<Rightarrow> bool" where
  "kept query allow deny minimum i =
     (minimum \<le> calculate_relevance_score i query
      \<and> (case allow of
            None \<Rightarrow> True
          | Some ds \<Rightarrow> ds = [] \<or> (\<exists>d \<in> set ds. py_in d (get_str (displayLink i))))
      \<and> (case deny of
            None \<Rightarrow> True
          | Some ds \<Rightarrow> (\<forall>d \<in> set ds. \<not> py_in d (get_str (displayLink i)))))"

definition items_of :: "raw_results \<Rightarrow> raw_item list" where
  "items_of raw = (case raw_items raw of None \<Rightarrow> [] | Some its \<Rightarrow> its)"

section \<open>Cache keys\<close>

text \<open>
  \<^verbatim>\<open>hashlib.md5(...).hexdigest()\<close> is library code, not part of the repository: the model
  is the MD5 algorithm of RFC 1321 on the bytes of the (ASCII) string. The properties
  below use nothing of the digest but that it is a function of its input.
\<close>

definition md5_K :: "32 word list" where
  "md5_K =
  [0xd76aa478, 0xe8c7b756, 0x242070db, 0xc1bdceee,
   0xf57c0faf, 0x4787c62a, 0xa8304613, 0xfd469501,
   0x698098d8, 0x8b44f7af, 0xffff5bb1, 0x895cd7be,
   0x6b901122, 0xfd987193, 0xa679438e, 0x49b40821,
   0xf61e2562, 0xc040b340, 0x265e5a51, 0xe9b6c7aa,
   0xd62f105d, 0x02441453, 0xd8a1e681, 0xe7d3fbc8,
   0x21e1cde6, 0xc33707d6, 0xf4d50d87, 0x455a14ed,
   0xa9e3e905, 0xfcefa3f8, 0x676f02d9, 0x8d2a4c8a,
   0xfffa3942, 0x8771f681, 0x6d9d6122, 0xfde5380c,
   0xa4beea44, 0x4bdecfa9, 0xf6bb4b60, 0xbebfbc70,
   0x289b7ec6, 0xeaa127fa, 0xd4ef3085, 0x04881d05,
   0xd9d4d039, 0xe6db99e5, 0x1fa27cf8, 0xc4ac5665,
   0xf4292244, 0x432aff97, 0xab9423a7, 0xfc93a039,
   0x655b59c3, 0x8f0ccc92, 0xffeff47d, 0x85845dd1,
   0x6fa87e4f, 0xfe2ce6e0, 0xa3014314, 0x4e0811a1,
   0xf7537e82, 0xbd3af235, 0x2ad7d2bb, 0xeb86d391]"

definition md5_s :: "nat list" where
  "md5_s = concat (map (\<lambda>r. r @ r @ r @ r)
             [[7, 12, 17, 22], [5, 9, 14, 20], [4, 11, 16, 23], [6, 10, 15, 21]])"

definition md5_pad :: "8 word list \<Rightarrow> 8 word list" where
  "md5_pad bs =
     (let n = length bs
      in bs @ [0x80] @ replicate ((119 - n mod 64) mod 64) 0
            @ map (\<lambda>i. ucast (drop_bit (8 * i) (word_of_nat (8 * n) :: 64 word))) [0 ..< 8])"

fun chunks :: "nat \<Rightarrow> 'a list \<Rightarrow> 'a list list" where
  "chunks n xs = (if n = 0 \<or> xs = [] then [] else take n xs # chunks n (drop n xs))"

definition le_word :: "8 word list \<Rightarrow> 32 word" where
  "le_word bs = foldr (\<lambda>b w. ucast b OR push_bit 8 w) bs 0"

definition le_bytes :: "32 word \<Rightarrow> 8 word list" where
  "le_bytes w = map (\<lambda>i. ucast (drop_bit (8 * i) w)) [0 ..< 4]"

type_synonym md5_state = "32 word \<times> 32 word \<times> 32 word \<times> 32 word"

definition md5_step :: "32 word list \<Rightarrow> nat \<Rightarrow> md5_state \<Rightarrow> md5_state" where
  "md5_step m i st =
     (case st of (a, b, c, d) \<Rightarrow>
        let (f, g) =
              (if i < 16 then ((b AND c) OR (NOT b AND d), i)
               else if i < 32 then ((d AND b) OR (NOT d AND c), (5 * i + 1) mod 16)
               else if i < 48 then (b XOR c XOR d, (3 * i + 5) mod 16)
               else (c XOR (b OR NOT d), (7 * i) mod 16));
            f' = f + a + md5_K ! i + m ! g
        in (d, b + word_rotl (md5_s ! i) f', b, c))"

definition md5_block :: "8 word list \<Rightarrow> md5_state \<Rightarrow> md5_state" where
  "md5_block block st =
     (case st of (a0, b0, c0, d0) \<Rightarrow>
        case fold (md5_step (map le_word (chunks 4 block))) [0 ..< 64] st of
          (a, b, c, d) \<Rightarrow> (a0 + a, b0 + b, c0 + c, d0 + d))"

definition hex_byte :: "8 word \<Rightarrow> string" where
  "hex_byte b = [''0123456789abcdef'' ! (unat b div 16), ''0123456789abcdef'' ! (unat b mod 16)]"

definition md5_hexdigest :: "string \<Rightarrow> string" where
  "md5_hexdigest s =
     (case fold md5_block (chunks 64 (md5_pad (map of_char s)))
             (0x67452301, 0xefcdab89, 0x98badcfe, 0x10325476) of
        (a, b, c, d) \<Rightarrow> concat (map hex_byte (concat (map le_bytes [a, b, c, d]))))"


text \<open>
  \<^verbatim>\<open>SearchCache._generate_key\<close>. The keyword arguments are a dictionary: a list of
  pairs with distinct names, in the order of the call. Their values are \<^verbatim>\<open>None\<close>,
  integers or strings, and \<^verbatim>\<open>f"{k}:{v}"\<close> renders a value as \<^verbatim>\<open>str\<close> does.
  \<^verbatim>\<open>sorted(params.items())\<close> orders the pairs by name: names are distinct, so no two
  pairs are ever compared by value.
\<close>

datatype pval = PNone | PInt int | PStr string

fun decimal :: "nat \<Rightarrow> string" where
  "decimal n =
     (if n < 10 then [''0123456789'' ! n] else decimal (n div 10) @ [''0123456789'' ! (n mod 10)])"

definition format_value :: "pval \<Rightarrow> string" where
  "format_value v =
     (case v of
        PNone \<Rightarrow> ''None''
      | PInt i \<Rightarrow> (if i < 0 then ''-'' @ decimal (nat (- i)) else decimal (nat i))
      | PStr s \<Rightarrow> s)"

type_synonym params = "(string \<times> pval) list"

fun join :: "string \<Rightarrow> string list \<Rightarrow> string" where
  "join sep [] = []"
| "join sep [p] = p"
| "join sep (p # q # ps) = p @ sep @ join sep (q # ps)"

definition key_parts :: "string \<Rightarrow> params \<Rightarrow> string list" where
  "key_parts query params =
     (''query:'' @ query) # map (\<lambda>(k, v). k @ '':'' @ format_value v) (sort_key fst params)"

definition key_string :: "string \<Rightarrow> params \<Rightarrow> string" where
  "key_string query params = join ''|'' (key_parts query params)"

definition generate_key :: "string \<Rightarrow> params \<Rightarrow> string" where
  "generate_key query params = ''search:'' @ md5_hexdigest (key_string query params)"


definition set_param :: "string \<Rightarrow> pval \<Rightarrow> params \<Rightarrow> params" where
  \<comment> \<open>the parameters with the value of the name \<open>k\<close> replaced\<close>
  "set_param k v ps = map (\<lambda>(k', x). if k' = k then (k', v) else (k', x)) ps"

section \<open>The local tier: an LRU cache\<close>

text \<open>
  Modelled from the spec: \<^verbatim>\<open>cachetools.LRUCache\<close>, the class of the in-memory tier, is
  library code and not part of the repository. The specification gives its policy:
  strict least-recently-used by access order, capacity fixed at construction, and an
  insertion beyond capacity evicts the least recently used entry. The entries are kept
  in access order, the least recently used first. Membership (\<^verbatim>\<open>key in cache\<close>) does
  not count as an access; reading (\<^verbatim>\<open>cache[key]\<close>) and writing (\<^verbatim>\<open>cache[key] = v\<close>)
  do. A cache of capacity 0 can hold no entry: the library raises \<^verbatim>\<open>ValueError\<close> on
  every write to it.
\<close>

record 'v lru_cache =
  maxsize :: nat
  entries :: "(string \<times> 'v) list"

definition lru_new :: "nat \<Rightarrow> 'v lru_cache" where
  "lru_new n = \<lparr> maxsize = n, entries = [] \<rparr>"

definition lru_keys :: "'v lru_cache \<Rightarrow> string list" where
  "lru_keys c = map fst (entries c)"

definition lru_contains :: "'v lru_cache \<Rightarrow> string \<Rightarrow> bool" where
  "lru_contains c k \<longleftrightarrow> k \<in> set (lru_keys c)"

definition lru_getitem :: "'v lru_cache \<Rightarrow> string \<Rightarrow> py_error + 'v \<times> 'v lru_cache" where
  "lru_getitem c k =
     (case map_of (entries c) k of
        None \<Rightarrow> Inl KeyError
      | Some v \<Rightarrow> Inr (v, c\<lparr>entries := filter (\<lambda>e. fst e \<noteq> k) (entries c) @ [(k, v)]\<rparr>))"

fun make_room :: "nat \<Rightarrow> (string \<times> 'v) list \<Rightarrow> (string \<times> 'v) list" where
  \<comment> \<open>\<^verbatim>\<open>while size + 1 > maxsize: popitem()\<close>, the least recently used entry first\<close>
  "make_room m [] = []"
| "make_room m (e # es) = (if m < length (e # es) + 1 then make_room m es else e # es)"

definition lru_setitem :: "'v lru_cache \<Rightarrow> string \<Rightarrow> 'v \<Rightarrow> py_error + 'v lru_cache" where
  "lru_setitem c k v =
     (if maxsize c < 1 then Inl ValueError
      else if lru_contains c k
      then Inr (c\<lparr>entries := filter (\<lambda>e. fst e \<noteq> k) (entries c) @ [(k, v)]\<rparr>)
      else Inr (c\<lparr>entries := make_room (maxsize c) (entries c) @ [(k, v)]\<rparr>))"

definition lru_delitem :: "'v lru_cache \<Rightarrow> string \<Rightarrow> 'v lru_cache" where
  "lru_delitem c k = c\<lparr>entries := filter (\<lambda>e. fst e \<noteq> k) (entries c)\<rparr>"

definition lru_clear :: "'v lru_cache \<Rightarrow> 'v lru_cache" where
  "lru_clear c = c\<lparr>entries := []\<rparr>"

section \<open>The remote tier: Redis\<close>

text \<open>
  The Redis server is an external collaborator. Its database maps keys to the stored
  payloads (\<^verbatim>\<open>json.dumps\<close> followed by \<^verbatim>\<open>json.loads\<close> gives back a JSON payload, and
  the serialised text of a dictionary is never empty), and any command may fail with a
  connection error: \<open>faults\<close> says for each coming command whether it fails, and a
  command consumes the first flag; once the list is used up every command succeeds.
  Expiry of entries (\<^verbatim>\<open>setex\<close> with the configured time to live) needs a clock and is
  not modelled: no time passes between the operations below.
\<close>

record 'v redis =
  db :: "string \<rightharpoonup> 'v"
  faults :: "bool list"

definition redis_command :: "'v redis \<Rightarrow> bool \<times> 'v redis" where
  \<comment> \<open>whether the next command fails, and the server after it\<close>
  "redis_command r = (case faults r of [] \<Rightarrow> (False, r) | f # fs \<Rightarrow> (f, r\<lparr>faults := fs\<rparr>))"

definition redis_get :: "'v redis \<Rightarrow> string \<Rightarrow> (py_error + 'v option) \<times> 'v redis" where
  "redis_get r k =
     (case redis_command r of (failed, r') \<Rightarrow>
        if failed then (Inl ConnectError, r') else (Inr (db r' k), r'))"

definition redis_setex :: "'v redis \<Rightarrow> string \<Rightarrow> 'v \<Rightarrow> (py_error + unit) \<times> 'v redis" where
  "redis_setex r k v =
     (case redis_command r of (failed, r') \<Rightarrow>
        if failed then (Inl ConnectError, r') else (Inr (), r'\<lparr>db := (db r')(k \<mapsto> v)\<rparr>))"

definition redis_delete :: "'v redis \<Rightarrow> string \<Rightarrow> (py_error + unit) \<times> 'v redis" where
  "redis_delete r k =
     (case redis_command r of (failed, r') \<Rightarrow>
        if failed then (Inl ConnectError, r') else (Inr (), r'\<lparr>db := (db r')(k := None)\<rparr>))"

definition redis_flushdb :: "'v redis \<Rightarrow> (py_error + unit) \<times> 'v redis" where
  "redis_flushdb r =
     (case redis_command r of (failed, r') \<Rightarrow>
        if failed then (Inl ConnectError, r') else (Inr (), r'\<lparr>db := Map.empty\<rparr>))"

section \<open>The search cache\<close>

text \<open>
  \<^verbatim>\<open>SearchCache\<close>. \<open>redis_client\<close> is \<open>None\<close> when no Redis URL is configured or the
  connection could not be made at construction.
\<close>

record 'v search_cache =
  enabled :: bool
  memory_cache :: "'v lru_cache"
  redis_client :: "'v redis option"

definition cache_init :: "bool \<Rightarrow> nat \<Rightarrow> 'v redis option \<Rightarrow> 'v search_cache" where
  \<comment> \<open>\<^verbatim>\<open>SearchCache.__init__\<close> from the cache settings\<close>
  "cache_init en max_cache_size r =
     \<lparr> enabled = en, memory_cache = lru_new max_cache_size, redis_client = r \<rparr>"

definition cache_get ::
  "'v search_cache \<Rightarrow> string \<Rightarrow> params \<Rightarrow> 'v option \<times> 'v search_cache" where
  "cache_get c query ps =
     (if \<not> enabled c then (None, c)
      else let key = generate_key query ps
           in if lru_contains (memory_cache c) key
              then (case lru_getitem (memory_cache c) key of
                      Inl e \<Rightarrow> (None, c)
                    | Inr (v, m) \<Rightarrow> (Some v, c\<lparr>memory_cache := m\<rparr>))
              else (case redis_client c of
                      None \<Rightarrow> (None, c)
                    | Some r \<Rightarrow>
                        (case redis_get r key of
                           (Inl e, r') \<Rightarrow> (None, c\<lparr>redis_client := Some r'\<rparr>)
                         | (Inr None, r') \<Rightarrow> (None, c\<lparr>redis_client := Some r'\<rparr>)
                         | (Inr (Some v), r') \<Rightarrow>
                             (case lru_setitem (memory_cache c) key v of
                                Inl e \<Rightarrow> (None, c\<lparr>redis_client := Some r'\<rparr>)
                              | Inr m \<Rightarrow>
                                  (Some v, c\<lparr>memory_cache := m, redis_client := Some r'\<rparr>)))))"

definition cache_set ::
  "'v search_cache \<Rightarrow> string \<Rightarrow> 'v \<Rightarrow> params \<Rightarrow> py_error + 'v search_cache" where
  "cache_set c query result ps =
     (if \<not> enabled c then Inr c
      else let key = generate_key query ps
           in case lru_setitem (memory_cache c) key result of
                Inl e \<Rightarrow> Inl e
              | Inr m \<Rightarrow>
                  (case redis_client c of
                     None \<Rightarrow> Inr (c\<lparr>memory_cache := m\<rparr>)
                   | Some r \<Rightarrow>
                       Inr (c\<lparr>memory_cache := m,
                              redis_client := Some (snd (redis_setex r key result))\<rparr>)))"

definition cache_clear :: "'v search_cache \<Rightarrow> string option \<Rightarrow> params \<Rightarrow> 'v search_cache" where
  "cache_clear c query ps =
     (if \<not> enabled c then c
      else case query of
             None \<Rightarrow>
               c\<lparr>memory_cache := lru_clear (memory_cache c),
                  redis_client := map_option (\<lambda>r. snd (redis_flushdb r)) (redis_client c)\<rparr>
           | Some q \<Rightarrow>
               (let key = generate_key q ps
                in c\<lparr>memory_cache :=
                       (if lru_contains (memory_cache c) key
                        then lru_delitem (memory_cache c) key else memory_cache c),
                     redis_client :=
                       map_option (\<lambda>r. snd (redis_delete r key)) (redis_client c)\<rparr>))"

section \<open>The upstream client\<close>

text \<open>
  The settings the client reads, and the world it acts on: the process-wide cache (the
  module keeps one \<^verbatim>\<open>SearchCache\<close>), the Custom Search service, and what the client
  did to it. \<open>upstream n p\<close> is the service's answer to the request number \<open>n\<close>
  (counted from 0 over the life of the world) when it carries the parameters \<open>p\<close>;
  \<open>requests\<close> lists the parameters of the requests sent so far and \<open>sleeps\<close> the
  seconds slept between attempts, both oldest first.
\<close>

record settings =
  custom_search_engine_id :: string
  max_results_per_query :: int
  result_language :: string
  safe_search :: string
  max_retries :: int

record world =
  cache :: "raw_results search_cache"
  upstream :: "nat \<Rightarrow> params \<Rightarrow> py_error + raw_results"
  requests :: "params list"
  sleeps :: "nat list"

definition execute :: "params \<Rightarrow> world \<Rightarrow> (py_error + raw_results) \<times> world" where
  \<comment> \<open>\<^verbatim>\<open>self.service.cse().list(**search_params).execute()\<close>\<close>
  "execute p w = (upstream w (length (requests w)) p, w\<lparr>requests := requests w @ [p]\<rparr>)"

definition kwarg :: "params \<Rightarrow> string \<Rightarrow> pval \<Rightarrow> pval" where
  \<comment> \<open>the keyword argument of this name, or the default of the signature\<close>
  "kwarg kwargs name dflt = (case map_of kwargs name of None \<Rightarrow> dflt | Some v \<Rightarrow> v)"

definition dict_set :: "string \<Rightarrow> pval \<Rightarrow> params \<Rightarrow> params" where
  \<comment> \<open>\<^verbatim>\<open>d[k] = v\<close>\<close>
  "dict_set k v d = (if k \<in> fst ` set d then set_param k v d else d @ [(k, v)])"

definition dict_update :: "params \<Rightarrow> params \<Rightarrow> params" where
  \<comment> \<open>\<^verbatim>\<open>d.update(e)\<close>\<close>
  "dict_update d e = fold (\<lambda>(k, v). dict_set k v) e d"

definition named_arguments :: "string list" where
  "named_arguments = [''num_results'', ''start_index'', ''language'', ''safe_search'']"

definition build_search_params :: "settings \<Rightarrow> string \<Rightarrow> params \<Rightarrow> py_error + params" where
  \<comment> \<open>the head of \<^verbatim>\<open>GoogleSearchClient.search\<close>: \<^verbatim>\<open>min(num_results, 10)\<close> raises
      \<^verbatim>\<open>TypeError\<close> for a string\<close>
  "build_search_params s query kwargs =
     (let num_results = (case kwarg kwargs ''num_results'' PNone of
                           PNone \<Rightarrow> PInt (max_results_per_query s) | v \<Rightarrow> v);
          start_index = kwarg kwargs ''start_index'' (PInt 1);
          language = (case kwarg kwargs ''language'' PNone of
                        PNone \<Rightarrow> PStr (result_language s) | v \<Rightarrow> v);
          safe = (case kwarg kwargs ''safe_search'' PNone of
                    PNone \<Rightarrow> PStr (safe_search s) | v \<Rightarrow> v);
          extra = filter (\<lambda>(k, v). k \<notin> set named_arguments) kwargs
      in case num_results of
           PInt n \<Rightarrow>
             Inr (dict_update
                    [(''q'', PStr query),
                     (''cx'', PStr (custom_search_engine_id s)),
                     (''num'', PInt (min n 10)),
                     (''start'', start_index),
                     (''lr'', PStr (''lang_'' @ format_value language)),
                     (''safe'', safe)]
                    extra)
         | _ \<Rightarrow> Inl TypeError)"

definition search_once ::
  "settings \<Rightarrow> string \<Rightarrow> params \<Rightarrow> world \<Rightarrow> (py_error + raw_results) \<times> world" where
  \<comment> \<open>the body of \<^verbatim>\<open>GoogleSearchClient.search\<close>, one attempt. The handler of
      \<^verbatim>\<open>HttpError\<close> parses the error body before it re-raises, so a body that is not
      JSON raises \<^verbatim>\<open>JSONDecodeError\<close> in place of the error\<close>
  "search_once s query kwargs w =
     (case build_search_params s query kwargs of
        Inl e \<Rightarrow> (Inl e, w)
      | Inr p \<Rightarrow>
          (case execute p w of
             (Inr result, w') \<Rightarrow> (Inr result, w')
           | (Inl (HttpError status json), w') \<Rightarrow>
               (if json then (Inl (HttpError status json), w') else (Inl JSONDecodeError, w'))
           | (Inl e, w') \<Rightarrow> (Inl e, w')))"

text \<open>
  The decorator \<^verbatim>\<open>@retry(stop=stop_after_attempt(max_retries),
  wait=wait_exponential(multiplier=1, min=4, max=60), reraise=True)\<close>. The retrying loop
  is the library's (\<^verbatim>\<open>tenacity\<close>), not part of the repository; it is modelled from the
  state machine of the specification, in the configuration the source gives it: the source
  passes no \<^verbatim>\<open>retry\<close> predicate, so every exception counts as retryable. Attempts are
  numbered from 1; after a failed attempt \<open>n\<close> the loop stops and re-raises the last
  exception when \<open>n\<close> has reached the maximum, and otherwise sleeps and tries again. The
  delay is \<open>multiplier * 2 ^ (n - 1)\<close> seconds, kept between the floor and the ceiling.
\<close>

definition wait_exponential :: "nat \<Rightarrow> nat" where
  "wait_exponential n = max 4 (min (1 * 2 ^ (n - 1)) 60)"

function call_with_retry ::
  "(world \<Rightarrow> (py_error + 'a) \<times> world) \<Rightarrow> int \<Rightarrow> nat \<Rightarrow> world \<Rightarrow> (py_error + 'a) \<times> world" where
  "call_with_retry f max_attempts n w =
     (case f w of
        (Inr result, w') \<Rightarrow> (Inr result, w')
      | (Inl e, w') \<Rightarrow>
          if max_attempts \<le> int n then (Inl e, w')
          else call_with_retry f max_attempts (Suc n)
                 (w'\<lparr>sleeps := sleeps w' @ [wait_exponential n]\<rparr>))"
  by pat_completeness auto
termination
  by (relation "measure (\<lambda>(f, max_attempts, n, w). nat (max_attempts - int n))") auto

definition search_retrying ::
  "settings \<Rightarrow> string \<Rightarrow> params \<Rightarrow> world \<Rightarrow> (py_error + raw_results) \<times> world" where
  "search_retrying s query kwargs w =
     call_with_retry (search_once s query kwargs) (max_retries s) 1 w"

text \<open>
  The decorator \<^verbatim>\<open>@cached_search\<close>, outermost. The key is made of the query and the
  keyword arguments of the call. \<^verbatim>\<open>if cached_result:\<close> asks for the truth value of
  the cached dictionary: \<^verbatim>\<open>None\<close> and the empty dictionary are false.
\<close>

definition truthy_raw :: "raw_results \<Rightarrow> bool" where
  "truthy_raw r \<longleftrightarrow> searchInformation r \<noteq> None \<or> raw_items r \<noteq> None \<or> other_keys r \<noteq> []"

definition search_and_store ::
  "settings \<Rightarrow> string \<Rightarrow> params \<Rightarrow> world \<Rightarrow> (py_error + raw_results) \<times> world" where
  \<comment> \<open>the wrapper after a miss: call the decorated function, cache its result\<close>
  "search_and_store s query kwargs w =
     (case search_retrying s query kwargs w of
        (Inl e, w') \<Rightarrow> (Inl e, w')
      | (Inr result, w') \<Rightarrow>
          (case cache_set (cache w') query result kwargs of
             Inl e \<Rightarrow> (Inl e, w')
           | Inr c \<Rightarrow> (Inr result, w'\<lparr>cache := c\<rparr>)))"

definition search ::
  "settings \<Rightarrow> string \<Rightarrow> params \<Rightarrow> world \<Rightarrow> (py_error + raw_results) \<times> world" where
  "search s query kwargs w =
     (case cache_get (cache w) query kwargs of
        (Some cached_result, c) \<Rightarrow>
          if truthy_raw cached_result then (Inr cached_result, w\<lparr>cache := c\<rparr>)
          else search_and_store s query kwargs (w\<lparr>cache := c\<rparr>)
      | (None, c) \<Rightarrow> search_and_store s query kwargs (w\<lparr>cache := c\<rparr>))"

section \<open>The pipeline\<close>

text \<open>
  \<^verbatim>\<open>SearchResultProcessor.process_query\<close>. \<open>kwargs\<close> are the further keyword arguments
  of the call (\<^verbatim>\<open>language\<close> and \<^verbatim>\<open>safe_search\<close> from the service); Python binds
  \<^verbatim>\<open>num_results\<close> to the parameter of that name, so it is never among them.
\<close>

definition process_query ::
  "settings \<Rightarrow> string \<Rightarrow> int \<Rightarrow> string list option \<Rightarrow> string list option \<Rightarrow> pyfloat
     \<Rightarrow> params \<Rightarrow> world \<Rightarrow> (py_error + search_response) \<times> world" where
  "process_query s query num_results filter_domains exclude_domains min_relevance_score
     kwargs w =
     (case search s query ((''num_results'', PInt num_results) # kwargs) w of
        (Inl e, w') \<Rightarrow> (Inl e, w')
      | (Inr raw, w') \<Rightarrow>
          (process_raw_results raw query filter_domains exclude_domains min_relevance_score,
           w'))"

section \<open>Sequences of cache operations\<close>




definition remote_ready :: "'v search_cache \<Rightarrow> bool" where
  "remote_ready c \<longleftrightarrow>
     (case redis_client c of None \<Rightarrow> True | Some r \<Rightarrow> \<not> fst (redis_command r))"





text \<open>Example caches: a remote tier whose second command fails, and a reliable one.\<close>

definition flaky_cache :: "string search_cache" where
  "flaky_cache = cache_init True 10 (Some \<lparr> db = Map.empty, faults = [False, True] \<rparr>)"

definition reliable_cache :: "string search_cache" where
  "reliable_cache = cache_init True 10 (Some \<lparr> db = Map.empty, faults = [] \<rparr>)"





chapter \<open>Properties\<close>

section \<open>Rounding\<close>

lemmas float_eval =
  fadd_def round_double_def round_pos_def ilog2_def scale2_def round_half_even_def py_min_def
  Let_def

lemma lit_values:
  "lit_0_05 = 3602879701896397 / 72057594037927936"
  "lit_0_1 = 3602879701896397 / 36028797018963968"
  "lit_0_2 = 3602879701896397 / 18014398509481984"
  "lit_0_3 = 5404319552844595 / 18014398509481984"
  "lit_0_5 = 1 / 2"
  "lit_1_0 = 1"
  by (simp_all add: lit_0_05_def lit_0_1_def lit_0_2_def lit_0_3_def lit_0_5_def lit_1_0_def
      float_eval)

lemmas score_eval =
  calculate_relevance_score_def title_part_def snippet_part_def domain_part_def lit_values
  float_eval

lemma round_half_even_nonneg: "0 \<le> x \<Longrightarrow> 0 \<le> round_half_even x"
  by (auto simp: round_half_even_def Let_def)

lemma scale2_nonneg: "0 \<le> x \<Longrightarrow> 0 \<le> scale2 x e"
  by (simp add: scale2_def)

lemma round_double_nonneg: "0 \<le> x \<Longrightarrow> 0 \<le> round_double x"
  by (simp add: round_double_def round_pos_def Let_def scale2_nonneg round_half_even_nonneg)

lemma fadd_nonneg: "0 \<le> x \<Longrightarrow> 0 \<le> y \<Longrightarrow> 0 \<le> fadd x y"
  by (simp add: fadd_def round_double_nonneg)

lemma lit_nonneg:
  "0 \<le> lit_0_05" "0 \<le> lit_0_1" "0 \<le> lit_0_2" "0 \<le> lit_0_3" "0 \<le> lit_0_5" "0 \<le> lit_1_0"
  by (simp_all add: lit_values)

lemma py_min_nonneg: "0 \<le> a \<Longrightarrow> 0 \<le> b \<Longrightarrow> 0 \<le> py_min a b"
  by (simp add: py_min_def)

section \<open>The relevance score\<close>

lemma title_score_nonneg: "0 \<le> acc \<Longrightarrow> 0 \<le> title_score t terms acc"
  by (induction terms arbitrary: acc) (auto simp: fadd_nonneg lit_nonneg)

lemma snippet_score_nonneg: "0 \<le> acc \<Longrightarrow> 0 \<le> snippet_score t terms acc"
  by (induction terms arbitrary: acc) (auto simp: fadd_nonneg lit_nonneg)

lemma domain_score_nonneg: "0 \<le> acc \<Longrightarrow> 0 \<le> domain_score d l terms acc"
  by (induction terms arbitrary: acc) (auto simp: fadd_nonneg lit_nonneg Let_def)

lemma score_nonneg: "0 \<le> calculate_relevance_score item query"
proof -
  have t: "0 \<le> title_part item query"
    by (simp add: title_part_def py_min_nonneg lit_nonneg title_score_nonneg)
  have s: "0 \<le> snippet_part item query"
    by (simp add: snippet_part_def py_min_nonneg lit_nonneg snippet_score_nonneg)
  have d: "0 \<le> domain_part item query"
    by (simp add: domain_part_def py_min_nonneg lit_nonneg domain_score_nonneg)
  show ?thesis
    unfolding calculate_relevance_score_def Let_def
    by (intro py_min_nonneg fadd_nonneg t s d lit_nonneg) simp
qed

lemma score_le_one: "calculate_relevance_score item query \<le> 1"
  by (simp add: calculate_relevance_score_def Let_def py_min_def lit_values)

lemma oil_spill_strings:
  "lower (get_str (title oil_spill_item)) = ''major oil spill reported''"
  "lower (get_str (snippet oil_spill_item)) = ''an oil spill occurred near the coast''"
  "lower (get_str (displayLink oil_spill_item)) = ''news.example.com''"
  "lower (get_str (link oil_spill_item)) = ''https://news.example.com/oil-spill''"
  "lower ''news.example.com'' = ''news.example.com''"
  "query_terms ''oil spill'' = [''oil'', ''spill'']"
  by code_simp+

lemma oil_spill_title:
  "title_part oil_spill_item ''oil spill'' = 3602879701896397 / 9007199254740992"
  by (simp add: score_eval oil_spill_strings)

lemma oil_spill_snippet:
  "snippet_part oil_spill_item ''oil spill'' = 3602879701896397 / 18014398509481984"
  by (simp add: score_eval oil_spill_strings)

lemma oil_spill_display_domain:
  "domain_score ''news.example.com'' [] [''oil'', ''spill''] 0 = 0"
  by simp

lemma oil_spill_domain:
  "domain_part oil_spill_item ''oil spill'' = 3602879701896397 / 36028797018963968"
  by (simp add: score_eval oil_spill_strings)

lemma oil_spill_sums:
  "fadd lit_0_2 lit_0_2 = 3602879701896397 / 9007199254740992"
  "round_double (4 / 10) = 3602879701896397 / 9007199254740992"
  "fadd lit_0_1 lit_0_1 = 3602879701896397 / 18014398509481984"
  "fadd lit_0_05 lit_0_05 = 3602879701896397 / 36028797018963968"
  by (simp_all add: lit_values float_eval)

lemma oil_spill_total:
  "calculate_relevance_score oil_spill_item ''oil spill'' = 6305039478318695 / 9007199254740992"
  unfolding calculate_relevance_score_def oil_spill_title oil_spill_snippet oil_spill_domain
  by (simp add: lit_values float_eval)

text \<open>
  Claim C3, as the code has it. For the query \<open>oil spill\<close> and the example item the title
  contributes \<open>0.4\<close> (two tokens), the snippet \<open>0.2\<close> (two tokens), the display domain
  nothing, and the link \<open>0.05\<close> for each of the two tokens, \<open>0.1\<close> together. The sum of the
  three parts, rounded as Python's doubles are, is \<open>0.7000000000000001\<close>: above \<open>0.5\<close>
  and not below \<open>0.7\<close>.
\<close>

theorem C3_oil_spill_score:
  "query_terms ''oil spill'' = [''oil'', ''spill'']
   \<and> title_part oil_spill_item ''oil spill'' = fadd lit_0_2 lit_0_2
   \<and> title_part oil_spill_item ''oil spill'' = round_double (4 / 10)
   \<and> snippet_part oil_spill_item ''oil spill'' = fadd lit_0_1 lit_0_1
   \<and> snippet_part oil_spill_item ''oil spill'' = lit_0_2
   \<and> domain_score (lower ''news.example.com'') [] (query_terms ''oil spill'') 0 = 0
   \<and> domain_part oil_spill_item ''oil spill'' = fadd lit_0_05 lit_0_05
   \<and> domain_part oil_spill_item ''oil spill'' = lit_0_1
   \<and> calculate_relevance_score oil_spill_item ''oil spill''
       = 6305039478318695 / 9007199254740992
   \<and> 1 / 2 < calculate_relevance_score oil_spill_item ''oil spill''
   \<and> 7 / 10 < calculate_relevance_score oil_spill_item ''oil spill''
   \<and> calculate_relevance_score oil_spill_item ''oil spill'' < 7 / 10 + 1 / 10 ^ 15"
  unfolding oil_spill_strings oil_spill_title oil_spill_snippet oil_spill_domain
    oil_spill_display_domain oil_spill_total oil_spill_sums
  by (simp add: lit_values)

text \<open>
  Claim C3, as the specification words it, fails: the score of the example is not
  strictly between \<open>0.5\<close> and \<open>0.7\<close>.
\<close>

theorem C3_counterexample:
  "\<not> (1 / 2 < calculate_relevance_score oil_spill_item ''oil spill''
      \<and> calculate_relevance_score oil_spill_item ''oil spill'' < 7 / 10)"
  unfolding oil_spill_total by simp

text \<open>
  Claim C4. The score is a function of the item and the query alone (the model takes no
  state and returns none, as the method reads nothing but its two arguments), so equal
  inputs give the equal float; and every score lies in the closed interval from 0 to 1.
\<close>

theorem C4_score_pure_and_in_unit_interval:
  "(item = item' \<and> query = query'
      \<longrightarrow> calculate_relevance_score item query = calculate_relevance_score item' query')
   \<and> 0 \<le> calculate_relevance_score item query
   \<and> calculate_relevance_score item query \<le> 1"
  by (simp add: score_nonneg score_le_one)

theorem C4_witness:
  "calculate_relevance_score oil_spill_item ''oil spill''
     = calculate_relevance_score oil_spill_item ''oil spill''
   \<and> 0 \<le> calculate_relevance_score oil_spill_item ''oil spill''
   \<and> calculate_relevance_score oil_spill_item ''oil spill'' \<le> 1"
  using C4_score_pure_and_in_unit_interval
    [of oil_spill_item oil_spill_item "''oil spill''" "''oil spill''"]
  by simp

section \<open>Filtering and ordering\<close>

lemma kept_iff:
  "kept query fd ed m i \<longleftrightarrow>
     \<not> calculate_relevance_score i query < m
     \<and> \<not> (truthy_list fd \<and> \<not> any_domain_in fd (get_str (displayLink i)))
     \<and> \<not> (truthy_list ed \<and> any_domain_in ed (get_str (displayLink i)))"
  by (auto simp: kept_def truthy_list_def any_domain_in_def list_ex_iff split: option.splits)

lemma process_items_kept:
  "process_items its query fd ed m acc = Inr ps \<Longrightarrow>
   map Inr ps = map Inr acc @ map (\<lambda>i. process_item i (calculate_relevance_score i query))
                                 (filter (kept query fd ed m) its)"
proof (induction its arbitrary: acc)
  case Nil
  then show ?case by simp
next
  case (Cons item rest)
  show ?case
  proof (cases "kept query fd ed m item")
    case False
    then have "process_items (item # rest) query fd ed m acc
                 = process_items rest query fd ed m acc"
      by (auto simp: kept_iff Let_def)
    with Cons False show ?thesis by simp
  next
    case True
    then have k: "\<not> calculate_relevance_score item query < m"
      "\<not> (truthy_list fd \<and> \<not> any_domain_in fd (get_str (displayLink item)))"
      "\<not> (truthy_list ed \<and> any_domain_in ed (get_str (displayLink item)))"
      by (auto simp: kept_iff)
    from Cons.prems k obtain p where
      p: "process_item item (calculate_relevance_score item query) = Inr p"
      and r: "process_items rest query fd ed m (acc @ [p]) = Inr ps"
      by (auto simp: Let_def split: sum.splits)
    from Cons.IH[OF r] True p show ?thesis by simp
  qed
qed

lemma process_item_score: "process_item i s = Inr p \<Longrightarrow> relevanceScore p = s"
  by (auto simp: process_item_def split: sum.splits)

lemma processed_scores:
  "map (\<lambda>i. process_item i (f i)) its = map Inr ps \<Longrightarrow> map relevanceScore ps = map f its"
proof (induction its arbitrary: ps)
  case Nil
  then show ?case by simp
next
  case (Cons i its)
  then obtain p ps' where ps: "ps = p # ps'" by (cases ps) auto
  with Cons.prems have "process_item i (f i) = Inr p"
    and "map (\<lambda>i. process_item i (f i)) its = map Inr ps'" by auto
  with Cons.IH ps show ?case by (simp add: process_item_score)
qed

lemma sort_by_score_reverse_sorted:
  "sorted_wrt (\<lambda>a b. relevanceScore b \<le> relevanceScore a) (sort_by_score_reverse xs)"
proof -
  have "sorted (map (\<lambda>x. - relevanceScore x) (sort_by_score_reverse xs))"
    by (simp add: sort_by_score_reverse_def)
  then show ?thesis
    by (simp add: sorted_map sorted_wrt_iff_nth_less)
qed

lemma sort_by_score_reverse_stable:
  "filter (\<lambda>p. relevanceScore p = s) (sort_by_score_reverse xs)
     = filter (\<lambda>p. relevanceScore p = s) xs"
proof -
  have "filter (\<lambda>p. - relevanceScore p = - s) (sort_key (\<lambda>x. - relevanceScore x) xs)
          = filter (\<lambda>p. - relevanceScore p = - s) xs"
    by (rule sort_key_stable)
  then show ?thesis by (simp add: sort_by_score_reverse_def)
qed

lemma sort_by_score_reverse_mset: "mset (sort_by_score_reverse xs) = mset xs"
  by (simp add: sort_by_score_reverse_def)

lemma process_raw_results_items:
  assumes "process_raw_results raw query fd ed m = Inr resp"
  shows "\<exists>ps. map (\<lambda>i. process_item i (calculate_relevance_score i query))
                 (filter (kept query fd ed m) (items_of raw)) = map Inr ps
              \<and> items resp = sort_by_score_reverse ps"
proof (cases "raw_items raw")
  case None
  with assms have "items resp = []"
    by (auto simp: process_raw_results_def Let_def split: sum.splits)
  with None show ?thesis by (simp add: items_of_def sort_by_score_reverse_def)
next
  case (Some its)
  with assms obtain ps where
    ps: "process_items its query fd ed m [] = Inr ps"
    and r: "items resp = sort_by_score_reverse ps"
    by (auto simp: process_raw_results_def Let_def split: sum.splits)
  from process_items_kept[OF ps] Some r show ?thesis
    by (intro exI[of _ ps]) (simp add: items_of_def)
qed

lemma three_strings:
  "lower (get_str (title item_09)) = ''oil spill on the coast''"
  "lower (get_str (snippet item_09)) = ''the oil spill reached the coast''"
  "lower (get_str (displayLink item_09)) = ''news.example.com''"
  "lower (get_str (link item_09)) = ''https://news.example.com/oil-spill''"
  "lower (get_str (title item_04)) = ''oil spill''"
  "lower (get_str (snippet item_04)) = ''a report''"
  "lower (get_str (displayLink item_04)) = ''blog.example.org''"
  "lower (get_str (link item_04)) = ''https://blog.example.org/p/1''"
  "lower (get_str (title item_07)) = ''coast oil spill''"
  "lower (get_str (snippet item_07)) = ''spill near the coast''"
  "lower (get_str (displayLink item_07)) = ''wire.example.net''"
  "lower (get_str (link item_07)) = ''https://wire.example.net/p/2''"
  "query_terms ''oil spill coast'' = [''oil'', ''spill'', ''coast'']"
  by code_simp+

lemma three_scores:
  "calculate_relevance_score item_09 ''oil spill coast'' = 8106479329266893 / 9007199254740992"
  "calculate_relevance_score item_04 ''oil spill coast'' = 3602879701896397 / 9007199254740992"
  "calculate_relevance_score item_07 ''oil spill coast'' = 3152519739159347 / 4503599627370496"
  by (simp_all add: score_eval three_strings)

lemma three_decimals:
  "round_double (9 / 10) = 8106479329266893 / 9007199254740992"
  "round_double (4 / 10) = 3602879701896397 / 9007199254740992"
  "round_double (7 / 10) = 3152519739159347 / 4503599627370496"
  by (simp_all add: float_eval)

lemma three_processed_items:
  "process_item item_09 s = Inr (hd (items three_response)\<lparr>relevanceScore := s\<rparr>)"
  "process_item item_07 s = Inr (hd (tl (items three_response))\<lparr>relevanceScore := s\<rparr>)"
  by (simp_all add: process_item_def item_image_def item_meta_description_def first_of_def
      split_domain_def get_str_def item_09_def item_07_def three_response_def)

lemma py_int_3: "py_int ''3'' = Inr 3"
  by code_simp

lemma three_results_processed:
  "process_raw_results three_results ''oil spill coast'' None None (1 / 2) = Inr three_response"
  by (simp add: process_raw_results_def three_results_def py_int_3 get_str_def three_scores
      truthy_list_def three_processed_items sort_by_score_reverse_def)
     (simp add: three_response_def)

text \<open>
  Claim C5. Whenever the processor returns a response, its items are the processed forms
  of exactly the raw items that the policy keeps (score at least the minimum, display
  domain passing the allow-list and the deny-list by substring), each carrying its score;
  they are in descending order of score, and items of equal score stand in their upstream
  order. For raw items scored \<open>0.9\<close>, \<open>0.4\<close>, \<open>0.7\<close> and the minimum \<open>0.5\<close> the response
  holds the two items scored \<open>0.9\<close> and \<open>0.7\<close>, in this order.
\<close>

theorem C5_filtered_sorted_stable:
  "(\<forall>resp. process_raw_results raw query fd ed m = Inr resp \<longrightarrow>
      (\<exists>ps. map (\<lambda>i. process_item i (calculate_relevance_score i query))
               (filter (kept query fd ed m) (items_of raw)) = map Inr ps
            \<and> map relevanceScore ps
                = map (\<lambda>i. calculate_relevance_score i query)
                    (filter (kept query fd ed m) (items_of raw))
            \<and> mset (items resp) = mset ps
            \<and> sorted_wrt (\<lambda>a b. relevanceScore b \<le> relevanceScore a) (items resp)
            \<and> (\<forall>s. filter (\<lambda>p. relevanceScore p = s) (items resp)
                      = filter (\<lambda>p. relevanceScore p = s) ps)))
   \<and> (\<exists>resp. process_raw_results three_results ''oil spill coast'' None None (1 / 2) = Inr resp
          \<and> map (\<lambda>i. calculate_relevance_score i ''oil spill coast'') (items_of three_results)
              = [round_double (9 / 10), round_double (4 / 10), round_double (7 / 10)]
          \<and> map relevanceScore (items resp) = [round_double (9 / 10), round_double (7 / 10)]
          \<and> map res_title (items resp) = [''Oil spill on the coast'', ''Coast oil spill''])"
proof (intro conjI allI impI)
  fix resp
  assume "process_raw_results raw query fd ed m = Inr resp"
  from process_raw_results_items[OF this] obtain ps where
    ps: "map (\<lambda>i. process_item i (calculate_relevance_score i query))
           (filter (kept query fd ed m) (items_of raw)) = map Inr ps"
    and r: "items resp = sort_by_score_reverse ps"
    by blast
  show "\<exists>ps. map (\<lambda>i. process_item i (calculate_relevance_score i query))
               (filter (kept query fd ed m) (items_of raw)) = map Inr ps
            \<and> map relevanceScore ps
                = map (\<lambda>i. calculate_relevance_score i query)
                    (filter (kept query fd ed m) (items_of raw))
            \<and> mset (items resp) = mset ps
            \<and> sorted_wrt (\<lambda>a b. relevanceScore b \<le> relevanceScore a) (items resp)
            \<and> (\<forall>s. filter (\<lambda>p. relevanceScore p = s) (items resp)
                      = filter (\<lambda>p. relevanceScore p = s) ps)"
    using ps processed_scores[OF ps] r
    by (intro exI[of _ ps])
       (simp add: sort_by_score_reverse_mset sort_by_score_reverse_sorted
          sort_by_score_reverse_stable)
next
  have a: "map (\<lambda>i. calculate_relevance_score i ''oil spill coast'') (items_of three_results)
          = [round_double (9 / 10), round_double (4 / 10), round_double (7 / 10)]"
    unfolding three_decimals by (simp add: items_of_def three_results_def three_scores)
  have b: "map relevanceScore (items three_response)
                   = [round_double (9 / 10), round_double (7 / 10)]"
    unfolding three_decimals by (simp add: three_response_def)
  have c: "map res_title (items three_response)
                   = [''Oil spill on the coast'', ''Coast oil spill'']"
    by (simp add: three_response_def)
  show "\<exists>resp. process_raw_results three_results ''oil spill coast'' None None (1 / 2)
                           = Inr resp
          \<and> map (\<lambda>i. calculate_relevance_score i ''oil spill coast'') (items_of three_results)
              = [round_double (9 / 10), round_double (4 / 10), round_double (7 / 10)]
          \<and> map relevanceScore (items resp) = [round_double (9 / 10), round_double (7 / 10)]
          \<and> map res_title (items resp) = [''Oil spill on the coast'', ''Coast oil spill'']"
    by (rule exI[of _ three_response]) (intro conjI three_results_processed a b c)
qed

theorem C5_witness:
  "process_raw_results three_results ''oil spill coast'' None None (1 / 2) = Inr three_response
   \<and> (\<exists>ps. map (\<lambda>i. process_item i (calculate_relevance_score i ''oil spill coast''))
               (filter (kept ''oil spill coast'' None None (1 / 2)) (items_of three_results))
             = map Inr ps
            \<and> map relevanceScore ps
                = map (\<lambda>i. calculate_relevance_score i ''oil spill coast'')
                    (filter (kept ''oil spill coast'' None None (1 / 2)) (items_of three_results))
            \<and> mset (items three_response) = mset ps
            \<and> sorted_wrt (\<lambda>a b. relevanceScore b \<le> relevanceScore a) (items three_response)
            \<and> (\<forall>s. filter (\<lambda>p. relevanceScore p = s) (items three_response)
                      = filter (\<lambda>p. relevanceScore p = s) ps))"
proof (rule conjI)
  show r: "process_raw_results three_results ''oil spill coast'' None None (1 / 2)
             = Inr three_response"
    by (rule three_results_processed)
  from C5_filtered_sorted_stable
    [of three_results "''oil spill coast''" None None "1 / 2"]
  have "\<forall>resp. process_raw_results three_results ''oil spill coast'' None None (1 / 2) = Inr resp
          \<longrightarrow> (\<exists>ps. map (\<lambda>i. process_item i (calculate_relevance_score i ''oil spill coast''))
               (filter (kept ''oil spill coast'' None None (1 / 2)) (items_of three_results))
             = map Inr ps
            \<and> map relevanceScore ps
                = map (\<lambda>i. calculate_relevance_score i ''oil spill coast'')
                    (filter (kept ''oil spill coast'' None None (1 / 2)) (items_of three_results))
            \<and> mset (items resp) = mset ps
            \<and> sorted_wrt (\<lambda>a b. relevanceScore b \<le> relevanceScore a) (items resp)
            \<and> (\<forall>s. filter (\<lambda>p. relevanceScore p = s) (items resp)
                      = filter (\<lambda>p. relevanceScore p = s) ps))"
    by (rule conjunct1)
  then have "process_raw_results three_results ''oil spill coast'' None None (1 / 2)
               = Inr three_response
          \<longrightarrow> (\<exists>ps. map (\<lambda>i. process_item i (calculate_relevance_score i ''oil spill coast''))
               (filter (kept ''oil spill coast'' None None (1 / 2)) (items_of three_results))
             = map Inr ps
            \<and> map relevanceScore ps
                = map (\<lambda>i. calculate_relevance_score i ''oil spill coast'')
                    (filter (kept ''oil spill coast'' None None (1 / 2)) (items_of three_results))
            \<and> mset (items three_response) = mset ps
            \<and> sorted_wrt (\<lambda>a b. relevanceScore b \<le> relevanceScore a) (items three_response)
            \<and> (\<forall>s. filter (\<lambda>p. relevanceScore p = s) (items three_response)
                      = filter (\<lambda>p. relevanceScore p = s) ps))"
    by (rule spec)
  then show "\<exists>ps. map (\<lambda>i. process_item i (calculate_relevance_score i ''oil spill coast''))
               (filter (kept ''oil spill coast'' None None (1 / 2)) (items_of three_results))
             = map Inr ps
            \<and> map relevanceScore ps
                = map (\<lambda>i. calculate_relevance_score i ''oil spill coast'')
                    (filter (kept ''oil spill coast'' None None (1 / 2)) (items_of three_results))
            \<and> mset (items three_response) = mset ps
            \<and> sorted_wrt (\<lambda>a b. relevanceScore b \<le> relevanceScore a) (items three_response)
            \<and> (\<forall>s. filter (\<lambda>p. relevanceScore p = s) (items three_response)
                      = filter (\<lambda>p. relevanceScore p = s) ps)"
    using r by (rule mp)
qed

section \<open>Cache keys\<close>
















section \<open>The cache\<close>

lemma make_room_drop: "make_room m es = (if m = 0 then [] else drop (length es + 1 - m) es)"
  by (induction es) (auto simp: Suc_diff_le)

lemma make_room_set: "set (make_room m es) \<subseteq> set es"
  by (auto simp: make_room_drop dest: in_set_dropD)

lemma map_of_absent_append:
  "k \<notin> fst ` set xs \<Longrightarrow> map_of (xs @ [(k, v)]) k = Some v"
  by (induction xs) auto

lemma lru_setitem_lookup:
  assumes "lru_setitem c k v = Inr c'"
  shows "lru_contains c' k" and "map_of (entries c') k = Some v"
proof -
  obtain xs where e: "entries c' = xs @ [(k, v)]" and n: "k \<notin> fst ` set xs"
  proof (cases "lru_contains c k")
    case True
    with assms have "entries c' = filter (\<lambda>e. fst e \<noteq> k) (entries c) @ [(k, v)]"
      by (auto simp: lru_setitem_def split: if_splits)
    moreover have "k \<notin> fst ` set (filter (\<lambda>e. fst e \<noteq> k) (entries c))" by auto
    ultimately show ?thesis by (rule that)
  next
    case False
    with assms have "entries c' = make_room (maxsize c) (entries c) @ [(k, v)]"
      by (auto simp: lru_setitem_def split: if_splits)
    moreover from False have "k \<notin> fst ` set (make_room (maxsize c) (entries c))"
      using make_room_set[of "maxsize c" "entries c"]
      by (auto simp: lru_contains_def lru_keys_def)
    ultimately show ?thesis by (rule that)
  qed
  from e show "lru_contains c' k" by (simp add: lru_contains_def lru_keys_def)
  from n show "map_of (entries c') k = Some v" unfolding e by (rule map_of_absent_append)
qed

lemma lru_setitem_succeeds: "1 \<le> maxsize c \<Longrightarrow> \<exists>c'. lru_setitem c k v = Inr c'"
  by (simp add: lru_setitem_def)

lemma lru_getitem_value:
  "map_of (entries c) k = Some v \<Longrightarrow> \<exists>m. lru_getitem c k = Inr (v, m)"
  by (simp add: lru_getitem_def)

lemma cache_set_get:
  assumes en: "enabled c" and s: "cache_set c q v ps = Inr c1"
  shows "fst (cache_get c1 q ps) = Some v"
proof -
  from en s obtain m where m: "lru_setitem (memory_cache c) (generate_key q ps) v = Inr m"
    and c1: "memory_cache c1 = m" "enabled c1"
    by (auto simp: cache_set_def Let_def split: sum.splits option.splits)
  have k: "lru_contains m (generate_key q ps)" by (rule lru_setitem_lookup(1)[OF m])
  have "map_of (entries m) (generate_key q ps) = Some v" by (rule lru_setitem_lookup(2)[OF m])
  then have "\<exists>m'. lru_getitem m (generate_key q ps) = Inr (v, m')" by (rule lru_getitem_value)
  then obtain m' where "lru_getitem m (generate_key q ps) = Inr (v, m')" ..
  with c1 k show ?thesis by (simp add: cache_get_def)
qed

lemma cache_set_succeeds:
  "1 \<le> maxsize (memory_cache c) \<Longrightarrow> \<exists>c1. cache_set c q v ps = Inr c1"
  using lru_setitem_succeeds[of "memory_cache c" "generate_key q ps" v]
  by (auto simp: cache_set_def Let_def split: option.splits)

lemma lru_delitem_absent: "\<not> lru_contains (lru_delitem m k) k"
  by (auto simp: lru_contains_def lru_delitem_def lru_keys_def)

lemma redis_get_absent:
  "db r k = None \<Longrightarrow> fst (redis_get r k) = Inl ConnectError \<or> fst (redis_get r k) = Inr None"
  by (auto simp: redis_get_def redis_command_def split: list.splits)

lemma cache_get_absent:
  assumes "\<not> lru_contains (memory_cache c) (generate_key q ps)"
    and "case redis_client c of None \<Rightarrow> True | Some r \<Rightarrow> db r (generate_key q ps) = None"
  shows "fst (cache_get c q ps) = None"
proof (cases "redis_client c")
  case None
  with assms show ?thesis by (simp add: cache_get_def Let_def)
next
  case (Some r)
  with assms have "db r (generate_key q ps) = None" by simp
  from redis_get_absent[OF this] Some assms(1) show ?thesis
    by (auto simp: cache_get_def Let_def split: prod.splits sum.splits option.splits)
qed

lemma cache_clear_key_get:
  assumes "remote_ready c"
  shows "fst (cache_get (cache_clear c (Some q) ps) q ps) = None"
proof (cases "enabled c")
  case False
  then show ?thesis by (simp add: cache_clear_def cache_get_def)
next
  case True
  let ?c = "cache_clear c (Some q) ps"
  from True have "\<not> lru_contains (memory_cache ?c) (generate_key q ps)"
    by (simp add: cache_clear_def Let_def lru_delitem_absent)
  moreover from True assms
  have "case redis_client ?c of None \<Rightarrow> True | Some r \<Rightarrow> db r (generate_key q ps) = None"
    by (auto simp: cache_clear_def Let_def remote_ready_def redis_delete_def redis_command_def
        split: option.splits list.splits)
  ultimately show ?thesis by (rule cache_get_absent)
qed

lemma cache_clear_all_get:
  assumes "remote_ready c"
  shows "fst (cache_get (cache_clear c None ps0) q ps) = None"
proof (cases "enabled c")
  case False
  then show ?thesis by (simp add: cache_clear_def cache_get_def)
next
  case True
  let ?c = "cache_clear c None ps0"
  from True have "\<not> lru_contains (memory_cache ?c) (generate_key q ps)"
    by (simp add: cache_clear_def lru_clear_def lru_contains_def lru_keys_def)
  moreover from True assms
  have "case redis_client ?c of None \<Rightarrow> True | Some r \<Rightarrow> db r (generate_key q ps) = None"
    by (auto simp: cache_clear_def Let_def remote_ready_def redis_flushdb_def redis_command_def
        split: option.splits list.splits)
  ultimately show ?thesis by (rule cache_get_absent)
qed






























text \<open>
  Claim C7, as the code has it. With caching enabled and a local tier of capacity at least
  one, \<^verbatim>\<open>set\<close> succeeds and a \<^verbatim>\<open>get\<close> right after it returns the payload. A
  \<^verbatim>\<open>get\<close> right after \<^verbatim>\<open>clear\<close> of the key, or after \<^verbatim>\<open>clear\<close> of everything,
  returns nothing, provided the remote tier is absent or its delete or flush command does
  not fail.
\<close>

theorem C7_round_trip:
  "(enabled c \<and> 1 \<le> maxsize (memory_cache c) \<longrightarrow>
      (\<exists>c1. cache_set c q v ps = Inr c1 \<and> fst (cache_get c1 q ps) = Some v))
   \<and> (remote_ready c \<longrightarrow> fst (cache_get (cache_clear c (Some q) ps) q ps) = None)
   \<and> (remote_ready c \<longrightarrow> fst (cache_get (cache_clear c None ps0) q ps) = None)"
proof (intro conjI impI)
  assume a: "enabled c \<and> 1 \<le> maxsize (memory_cache c)"
  then obtain c1 where s: "cache_set c q v ps = Inr c1"
    using cache_set_succeeds[of c q v ps] by blast
  from a have "enabled c" by simp
  then have "fst (cache_get c1 q ps) = Some v" using s by (rule cache_set_get)
  with s show "\<exists>c1. cache_set c q v ps = Inr c1 \<and> fst (cache_get c1 q ps) = Some v"
    by blast
next
  assume "remote_ready c"
  then show "fst (cache_get (cache_clear c (Some q) ps) q ps) = None"
    by (rule cache_clear_key_get)
next
  assume "remote_ready c"
  then show "fst (cache_get (cache_clear c None ps0) q ps) = None"
    by (rule cache_clear_all_get)
qed

lemma reliable_cache_facts:
  "enabled reliable_cache" "1 \<le> maxsize (memory_cache reliable_cache)"
  "remote_ready reliable_cache"
  by (simp_all add: reliable_cache_def cache_init_def lru_new_def remote_ready_def
      redis_command_def)

theorem C7_witness:
  "(\<exists>c1. cache_set reliable_cache ''oil spill'' ''payload'' [(''num_results'', PInt 10)]
            = Inr c1
          \<and> fst (cache_get c1 ''oil spill'' [(''num_results'', PInt 10)]) = Some ''payload'')
   \<and> fst (cache_get
            (cache_clear reliable_cache (Some ''oil spill'') [(''num_results'', PInt 10)])
            ''oil spill'' [(''num_results'', PInt 10)]) = None
   \<and> fst (cache_get (cache_clear reliable_cache None [])
            ''oil spill'' [(''num_results'', PInt 10)]) = None"
  using C7_round_trip
    [where c = reliable_cache and q = "''oil spill''" and v = "''payload''"
       and ps = "[(''num_results'', PInt 10)]" and ?ps0.0 = "[]"]
    reliable_cache_facts
  by simp

text \<open>
  Claim C7, as the specification words it, fails when a command of the remote tier fails:
  the error is swallowed, the entry stays in Redis, and the next \<^verbatim>\<open>get\<close> finds it there.
  Here the \<^verbatim>\<open>setex\<close> of the \<^verbatim>\<open>set\<close> succeeds and the \<^verbatim>\<open>delete\<close> of the
  \<^verbatim>\<open>clear\<close> fails.
\<close>

theorem C7_counterexample:
  "enabled flaky_cache
   \<and> (case cache_set flaky_cache ''oil spill'' ''payload'' [] of
        Inl e \<Rightarrow> None
      | Inr c1 \<Rightarrow> fst (cache_get (cache_clear c1 (Some ''oil spill'') []) ''oil spill'' []))
     = Some ''payload''"
  by (simp add: flaky_cache_def cache_init_def lru_new_def cache_set_def cache_clear_def
      cache_get_def lru_setitem_def lru_contains_def lru_keys_def lru_delitem_def
      redis_setex_def redis_delete_def redis_get_def redis_command_def Let_def)







end
